theory Spec2Isabelle
  imports Complex_Main
begin

section \<open>Option dictionaries and \<open>underride\<close>\<close>

text \<open>
  The helpers of \<^verbatim>\<open>nb/utils.py\<close> pass keyword options around as Python dictionaries.
  A Python \<^verbatim>\<open>dict\<close> keeps its keys in insertion order and holds every key once, so a
  dictionary is modelled as an association list: \<open>map_of d k\<close> is \<^verbatim>\<open>d[k]\<close>, the
  keys are \<open>map fst d\<close>, and a new key goes to the end of the list.

  Option values are arbitrary Python objects; the ones the helpers themselves supply are
  booleans, numbers and strings.
\<close>

datatype pyval = PyNone | PyBool bool | PyNum real | PyStr string

type_synonym ('k, 'v) dict = "('k \<times> 'v) list"

text \<open>
  \<^verbatim>\<open>d.setdefault(key, val)\<close>: when \<^verbatim>\<open>key\<close> is in \<^verbatim>\<open>d\<close> nothing changes, otherwise the pair is
  inserted. The mutation of \<^verbatim>\<open>d\<close> is made explicit: the updated dictionary is returned.
\<close>

definition setdefault :: "('k, 'v) dict \<Rightarrow> 'k \<Rightarrow> 'v \<Rightarrow> ('k, 'v) dict" where
  "setdefault d key val = (if key \<in> fst ` set d then d else d @ [(key, val)])"

text \<open>
  \<^verbatim>\<open>
  def underride(d, **options):
      for key, val in options.items():
          d.setdefault(key, val)
      return d
  \<close>
  The parameter \<^verbatim>\<open>options\<close> is the dictionary of keyword arguments as Python binds it; the
  loop over \<^verbatim>\<open>options.items()\<close> is the recursion over the list.
\<close>

fun underride :: "('k, 'v) dict \<Rightarrow> ('k, 'v) dict \<Rightarrow> ('k, 'v) dict" where
  "underride d [] = d"
| "underride d ((key, val) # options) = underride (setdefault d key val) options"

section \<open>Numbers, mean and standard deviation\<close>

text \<open>
  The numeric samples are sequences of Python floats. They are modelled as lists of real
  numbers, and \<^verbatim>\<open>np.mean\<close> and \<^verbatim>\<open>np.std\<close> as the arithmetic mean and the population
  standard deviation (numpy's default, \<^verbatim>\<open>ddof=0\<close>: the square root of the mean of
  \<^verbatim>\<open>abs(x - x.mean())**2\<close>) in exact arithmetic. The rounding of IEEE doubles is not part of
  this model. On an empty array numpy returns \<^verbatim>\<open>nan\<close>, which has no counterpart here;
  \<open>plot_kde\<close> never takes the mean of an empty sample, since the fit before it rejects
  one.
\<close>

definition np_mean :: "real list \<Rightarrow> real" where
  "np_mean a = sum_list a / real (length a)"

definition np_std :: "real list \<Rightarrow> real" where
  "np_std a = sqrt (np_mean (map (\<lambda>x. \<bar>x - np_mean a\<bar>\<^sup>2) a))"

text \<open>
  \<^verbatim>\<open>
  def standardize(xs):
      return (xs - np.mean(xs)) / np.std(xs)
  \<close>
  The subtraction and the division are numpy's, element by element.
\<close>

definition standardize :: "real list \<Rightarrow> real list" where
  "standardize xs = map (\<lambda>x. (x - np_mean xs) / np_std xs) xs"

section \<open>\<open>plot_kde\<close>\<close>

text \<open>The exceptions that the modelled functions raise.\<close>

datatype py_error = IndexError | ValueError | LinAlgError | NameError






section \<open>\<open>display_summary\<close>\<close>

text \<open>
  \<^verbatim>\<open>
  def display_summary(result):
      params = result.summary().tables[1]
      display(params)

      if hasattr(result, "rsquared"):
          row = ["R-squared:", f"{result.rsquared:0.4}"]
      elif hasattr(result, "prsquared"):
          row = ["Pseudo R-squared:", f"{result.prsquared:0.4}"]
      else:
          return
      table = SimpleTable([row])
      display(table)
  \<close>
  A result object is modelled by what the function reads of it: the list
  \<^verbatim>\<open>result.summary().tables\<close> and the two attributes, each of which the object may or may
  not have (\<^verbatim>\<open>hasattr\<close> is \<open>\<noteq> None\<close>). A table is a \<^verbatim>\<open>SimpleTable\<close> of rows of cells; the
  cell \<open>Format_0_4 x\<close> stands for the string that the format specification \<^verbatim>\<open>0.4\<close> makes
  of the number \<open>x\<close>. Indexing a list out of range raises \<^verbatim>\<open>IndexError\<close>. The function
  returns nothing: the model returns the tables handed to \<^verbatim>\<open>display\<close>, in order.
\<close>

datatype cell = Str string | Format_0_4 real

datatype table = SimpleTable "cell list list"

record result =
  summary_tables :: "table list"
  rsquared :: "real option"
  prsquared :: "real option"

definition display_summary :: "result \<Rightarrow> py_error + table list" where
  "display_summary result =
     (if length (summary_tables result) \<le> 1 then Inl IndexError
      else
        let params = summary_tables result ! 1;
            displayed = [params]
        in case rsquared result of
             Some r \<Rightarrow>
               Inr (displayed @ [SimpleTable [[Str ''R-squared:'', Format_0_4 r]]])
           | None \<Rightarrow>
              (case prsquared result of
                 Some p \<Rightarrow>
                   Inr (displayed @ [SimpleTable [[Str ''Pseudo R-squared:'', Format_0_4 p]]])
               | None \<Rightarrow> Inr displayed))"

section \<open>\<open>legend\<close>\<close>

text \<open>
  \<^verbatim>\<open>
  def legend(**options):
      underride(options, loc="best")

      ax = plt.gca()
      handles, labels = ax.get_legend_handles_labels()
      if handles:
          ax.legend(handles, labels, **options)
  \<close>
  The current axes, which \<^verbatim>\<open>plt.gca()\<close> returns, are passed explicitly and returned
  updated. Of the axes the model keeps the plotted artists, each with a handle and
  possibly a label, and the legends drawn so far. \<^verbatim>\<open>get_legend_handles_labels\<close> and
  \<^verbatim>\<open>ax.legend\<close> are matplotlib's: the first returns the handles and the labels of the
  labelled artists, the second draws a legend for the handles, labels and options given.
\<close>

record artist =
  handle :: nat
  label :: "string option"

type_synonym legend_call = "nat list \<times> string list \<times> (string, pyval) dict"

record axes =
  artists :: "artist list"
  legends :: "legend_call list"

definition get_legend_handles_labels :: "axes \<Rightarrow> nat list \<times> string list" where
  "get_legend_handles_labels ax =
     (let labelled = filter (\<lambda>a. label a \<noteq> None) (artists ax)
      in (map handle labelled, map (\<lambda>a. the (label a)) labelled))"

definition ax_legend ::
  "axes \<Rightarrow> nat list \<Rightarrow> string list \<Rightarrow> (string, pyval) dict \<Rightarrow> axes" where
  "ax_legend ax handles labels options =
     ax\<lparr>legends := legends ax @ [(handles, labels, options)]\<rparr>"

definition legend :: "axes \<Rightarrow> (string, pyval) dict \<Rightarrow> axes" where
  "legend ax options =
     (let options = underride options [(''loc'', PyStr ''best'')];
          (handles, labels) = get_legend_handles_labels ax
      in if handles \<noteq> [] then ax_legend ax handles labels options else ax)"

section \<open>\<open>value_counts\<close>\<close>






section \<open>Properties\<close>

subsection \<open>\<open>setdefault\<close> and \<open>underride\<close>\<close>

text \<open>
  The keys of the result, the values it keeps, and the invariant of dictionaries (every
  key once) that both operations preserve.
\<close>

lemma setdefault_keys: "fst ` set (setdefault d key val) = insert key (fst ` set d)"
  by (auto simp: setdefault_def)

lemma setdefault_keeps: "map_of d k = Some v \<Longrightarrow> map_of (setdefault d key val) k = Some v"
  by (simp add: setdefault_def map_add_Some_iff)

lemma setdefault_distinct:
  "distinct (map fst d) \<Longrightarrow> distinct (map fst (setdefault d key val))"
  by (auto simp: setdefault_def)

lemma underride_keys: "fst ` set (underride d options) = fst ` set d \<union> fst ` set options"
  by (induction d options rule: underride.induct) (auto simp: setdefault_keys)

lemma underride_keeps: "map_of d k = Some v \<Longrightarrow> map_of (underride d options) k = Some v"
  by (induction d options rule: underride.induct) (auto simp: setdefault_keeps)

lemma underride_distinct:
  "distinct (map fst d) \<Longrightarrow> distinct (map fst (underride d options))"
  by (induction d options rule: underride.induct) (auto simp: setdefault_distinct)

lemma setdefault_lookup:
  "map_of (setdefault d key val) k =
     (case map_of d k of Some v \<Rightarrow> Some v | None \<Rightarrow> if k = key then Some val else None)"
proof (cases "key \<in> fst ` set d")
  case True
  then have "map_of d key \<noteq> None" by (simp add: map_of_eq_None_iff)
  with True show ?thesis by (auto simp: setdefault_def split: option.splits)
next
  case False
  then have "map_of d key = None" by (simp add: map_of_eq_None_iff)
  with False show ?thesis by (auto simp: setdefault_def map_add_def split: option.splits)
qed

lemma underride_lookup:
  "map_of (underride d options) k =
     (case map_of d k of Some v \<Rightarrow> Some v | None \<Rightarrow> map_of options k)"
  by (induction d options rule: underride.induct)
     (auto simp: setdefault_lookup split: option.splits)

text \<open>
  Claim C1. For every dictionary \<open>d\<close> and every dictionary of defaults, after
  \<^verbatim>\<open>underride(d, **defaults)\<close> every default key is a key of the result, and every key
  that \<open>d\<close> held before the call still maps to the value \<open>d\<close> held for it: a default
  never overwrites a value of the caller.
\<close>

theorem underride_defaults_present_values_kept:
  "(\<forall>key \<in> fst ` set defaults. key \<in> fst ` set (underride d defaults)) \<and>
   (\<forall>key v. map_of d key = Some v \<longrightarrow> map_of (underride d defaults) key = Some v)"
  by (simp add: underride_keys underride_keeps)

theorem underride_defaults_present_values_kept_witness:
  "underride [(''color'', PyStr ''red'')] [(''color'', PyStr ''blue''), (''alpha'', PyNum (6 / 10))]
     = [(''color'', PyStr ''red''), (''alpha'', PyNum (6 / 10))] \<and>
   ''color'' \<in> fst ` set (underride [(''color'', PyStr ''red'')]
       [(''color'', PyStr ''blue''), (''alpha'', PyNum (6 / 10))]) \<and>
   ''alpha'' \<in> fst ` set (underride [(''color'', PyStr ''red'')]
       [(''color'', PyStr ''blue''), (''alpha'', PyNum (6 / 10))]) \<and>
   map_of (underride [(''color'', PyStr ''red'')]
       [(''color'', PyStr ''blue''), (''alpha'', PyNum (6 / 10))]) ''color'' = Some (PyStr ''red'')"
  using underride_defaults_present_values_kept
    [of "[(''color'', PyStr ''blue''), (''alpha'', PyNum (6 / 10))]" "[(''color'', PyStr ''red'')]"]
  by (simp add: setdefault_def)

subsection \<open>The density plot\<close>

lemma np_mean_0_2: "np_mean [0, 2] = 1"
  by (simp add: np_mean_def)

lemma np_std_0_2: "np_std [0, 2] = 1"
  by (simp add: np_std_def np_mean_def)











subsection \<open>The regression summary\<close>

lemma display_summary_no_coefficient_table:
  "length (summary_tables result) \<le> 1 \<Longrightarrow> display_summary result = Inl IndexError"
  by (simp add: display_summary_def)

lemma display_summary_pseudo_rsquared:
  assumes "1 < length (summary_tables result)"
    and "rsquared result = None"
    and "prsquared result = Some p"
  shows "display_summary result =
           Inr [summary_tables result ! 1,
                SimpleTable [[Str ''Pseudo R-squared:'', Format_0_4 p]]]"
  using assms by (simp add: display_summary_def Let_def)

text \<open>
  Claim C6. For a result object whose summary has its coefficient table (the table at
  index 1): when the object has the attribute \<^verbatim>\<open>rsquared\<close>, \<open>display_summary\<close> displays
  exactly two tables, the coefficient table and then the one-row R-squared table; when it
  has neither \<^verbatim>\<open>rsquared\<close> nor \<^verbatim>\<open>prsquared\<close>, it displays the coefficient table alone.
\<close>

theorem display_summary_two_tables_or_one:
  assumes "1 < length (summary_tables result)"
  shows "(\<forall>r. rsquared result = Some r \<longrightarrow>
            display_summary result =
              Inr [summary_tables result ! 1,
                   SimpleTable [[Str ''R-squared:'', Format_0_4 r]]]) \<and>
         (rsquared result = None \<and> prsquared result = None \<longrightarrow>
            display_summary result = Inr [summary_tables result ! 1])"
  using assms by (simp add: display_summary_def Let_def)

theorem display_summary_two_tables_or_one_witness:
  "display_summary
     \<lparr>summary_tables = [SimpleTable [[Str ''Dep. Variable:'', Str ''y'']],
                        SimpleTable [[Str ''Intercept'', Str ''1.5'']],
                        SimpleTable [[Str ''Omnibus:'', Str ''0.1'']]],
      rsquared = Some (3 / 4), prsquared = None\<rparr>
     = Inr [SimpleTable [[Str ''Intercept'', Str ''1.5'']],
            SimpleTable [[Str ''R-squared:'', Format_0_4 (3 / 4)]]] \<and>
   display_summary
     \<lparr>summary_tables = [SimpleTable [[Str ''Dep. Variable:'', Str ''y'']],
                        SimpleTable [[Str ''Intercept'', Str ''1.5'']]],
      rsquared = None, prsquared = None\<rparr>
     = Inr [SimpleTable [[Str ''Intercept'', Str ''1.5'']]]"
  using
    display_summary_two_tables_or_one
      [of "\<lparr>summary_tables = [SimpleTable [[Str ''Dep. Variable:'', Str ''y'']],
                                SimpleTable [[Str ''Intercept'', Str ''1.5'']],
                                SimpleTable [[Str ''Omnibus:'', Str ''0.1'']]],
              rsquared = Some (3 / 4), prsquared = None\<rparr>"]
    display_summary_two_tables_or_one
      [of "\<lparr>summary_tables = [SimpleTable [[Str ''Dep. Variable:'', Str ''y'']],
                                SimpleTable [[Str ''Intercept'', Str ''1.5'']]],
              rsquared = None, prsquared = None\<rparr>"]
  by simp

text \<open>
  Claim C10. For a result object (whose summary has its coefficient table) that has both
  attributes \<^verbatim>\<open>rsquared\<close> and \<^verbatim>\<open>prsquared\<close>, \<open>display_summary\<close> displays the R-squared
  row, made from \<^verbatim>\<open>rsquared\<close>, and not the pseudo-R-squared row: the first probe wins.
\<close>

theorem display_summary_rsquared_before_prsquared:
  assumes "1 < length (summary_tables result)"
    and "rsquared result = Some r"
    and "prsquared result = Some p"
  shows "display_summary result =
           Inr [summary_tables result ! 1,
                SimpleTable [[Str ''R-squared:'', Format_0_4 r]]] \<and>
         display_summary result \<noteq>
           Inr [summary_tables result ! 1,
                SimpleTable [[Str ''Pseudo R-squared:'', Format_0_4 p]]]"
  using assms by (simp add: display_summary_def Let_def)

theorem display_summary_rsquared_before_prsquared_witness:
  "display_summary
     \<lparr>summary_tables = [SimpleTable [[Str ''Dep. Variable:'', Str ''y'']],
                        SimpleTable [[Str ''Intercept'', Str ''1.5'']]],
      rsquared = Some (3 / 4), prsquared = Some (1 / 4)\<rparr>
     = Inr [SimpleTable [[Str ''Intercept'', Str ''1.5'']],
            SimpleTable [[Str ''R-squared:'', Format_0_4 (3 / 4)]]]"
  using display_summary_rsquared_before_prsquared
      [of "\<lparr>summary_tables = [SimpleTable [[Str ''Dep. Variable:'', Str ''y'']],
                                SimpleTable [[Str ''Intercept'', Str ''1.5'']]],
              rsquared = Some (3 / 4), prsquared = Some (1 / 4)\<rparr>" "3 / 4" "1 / 4"]
  by simp

subsection \<open>The legend\<close>

lemma handles_empty_iff:
  "fst (get_legend_handles_labels ax) = [] \<longleftrightarrow> (\<forall>a \<in> set (artists ax). label a = None)"
  by (simp add: get_legend_handles_labels_def Let_def filter_empty_conv)

text \<open>
  Claim C7. \<open>legend\<close> draws a legend on the current axes if and only if at least one
  artist plotted on them carries a label: with no labelled artist the axes are left as
  they are, no legend call being made; with at least one, one legend is drawn, for the
  handles and labels of the labelled artists and the options with \<^verbatim>\<open>loc="best"\<close>
  underridden.
\<close>

theorem legend_drawn_iff_labelled:
  "(legends (legend ax options) \<noteq> legends ax \<longleftrightarrow>
      (\<exists>a \<in> set (artists ax). label a \<noteq> None)) \<and>
   ((\<forall>a \<in> set (artists ax). label a = None) \<longrightarrow> legend ax options = ax) \<and>
   ((\<exists>a \<in> set (artists ax). label a \<noteq> None) \<longrightarrow>
      legends (legend ax options) =
        legends ax @
          [(fst (get_legend_handles_labels ax), snd (get_legend_handles_labels ax),
            underride options [(''loc'', PyStr ''best'')])])"
  using handles_empty_iff [of ax]
  by (auto simp: legend_def Let_def ax_legend_def split: prod.splits)

theorem legend_drawn_iff_labelled_witness:
  "legend \<lparr>artists = [\<lparr>handle = 0, label = None\<rparr>, \<lparr>handle = 1, label = None\<rparr>],
           legends = []\<rparr> []
     = \<lparr>artists = [\<lparr>handle = 0, label = None\<rparr>, \<lparr>handle = 1, label = None\<rparr>],
        legends = []\<rparr> \<and>
   legends (legend \<lparr>artists = [\<lparr>handle = 0, label = None\<rparr>,
                               \<lparr>handle = 1, label = Some ''men''\<rparr>],
                    legends = []\<rparr> [])
     = [([1], [''men''], [(''loc'', PyStr ''best'')])]"
  using
    legend_drawn_iff_labelled
      [of "\<lparr>artists = [\<lparr>handle = 0, label = None\<rparr>, \<lparr>handle = 1, label = None\<rparr>],
              legends = []\<rparr>" "[]"]
    legend_drawn_iff_labelled
      [of "\<lparr>artists = [\<lparr>handle = 0, label = None\<rparr>, \<lparr>handle = 1, label = Some ''men''\<rparr>],
              legends = []\<rparr>" "[]"]
  by (simp add: get_legend_handles_labels_def setdefault_def)

subsection \<open>Counting values\<close>
















subsection \<open>Standardizing, in exact arithmetic\<close>

text \<open>
  With real numbers in place of floats, a standardized sequence has mean \<open>0\<close> and
  standard deviation \<open>1\<close> exactly, and standardizing it again changes nothing. How far
  the floating-point results are from these values depends on the rounding of the
  operations of numpy, which is not modelled.
\<close>

lemma sum_list_shift_scale:
  "sum_list (map (\<lambda>x. (x - m) / s) xs) = (sum_list xs - real (length xs) * m) / (s :: real)"
  by (induction xs) (simp_all add: diff_divide_distrib add_divide_distrib algebra_simps)

lemma sum_list_scale_sq:
  "sum_list (map (\<lambda>x. \<bar>(x - m) / s\<bar>\<^sup>2) xs) =
     sum_list (map (\<lambda>x. \<bar>x - m\<bar>\<^sup>2) xs) / (s :: real)\<^sup>2"
proof (induction xs)
  case Nil
  show ?case by simp
next
  case (Cons a xs)
  have "\<bar>(a - m) / s\<bar>\<^sup>2 = \<bar>a - m\<bar>\<^sup>2 / s\<^sup>2"
    by (simp add: power_divide)
  with Cons show ?case
    by (simp only: list.map sum_list.Cons add_divide_distrib)
qed

lemma np_std_pos_nonempty: "0 < np_std xs \<Longrightarrow> xs \<noteq> []"
  by (auto simp: np_std_def np_mean_def)

lemma np_std_sq: "(np_std xs)\<^sup>2 = np_mean (map (\<lambda>x. \<bar>x - np_mean xs\<bar>\<^sup>2) xs)"
proof -
  have "0 \<le> sum_list (map (\<lambda>x. \<bar>x - np_mean xs\<bar>\<^sup>2) xs)"
    by (rule sum_list_nonneg) auto
  then have "0 \<le> np_mean (map (\<lambda>x. \<bar>x - np_mean xs\<bar>\<^sup>2) xs)"
    by (simp add: np_mean_def)
  then show ?thesis by (simp add: np_std_def)
qed

lemma standardize_mean_exact:
  assumes "xs \<noteq> []"
  shows "np_mean (standardize xs) = 0"
  using assms by (simp add: np_mean_def standardize_def comp_def sum_list_shift_scale)

lemma standardize_std_exact:
  assumes "0 < np_std xs"
  shows "np_std (standardize xs) = 1"
proof -
  have ne: "xs \<noteq> []" using assms by (rule np_std_pos_nonempty)
  define m where "m = np_mean xs"
  define s where "s = np_std xs"
  have s: "0 < s" using assms by (simp add: s_def)
  have "np_mean (map (\<lambda>y. \<bar>y - np_mean (standardize xs)\<bar>\<^sup>2) (standardize xs))
        = np_mean (map (\<lambda>x. \<bar>(x - m) / s\<bar>\<^sup>2) xs)"
    unfolding standardize_mean_exact [OF ne]
    by (simp add: standardize_def comp_def m_def s_def power_divide)
  also have "\<dots> = np_mean (map (\<lambda>x. \<bar>x - m\<bar>\<^sup>2) xs) / s\<^sup>2"
    by (simp only: np_mean_def sum_list_scale_sq length_map) simp
  also have "\<dots> = 1"
  proof -
    have "np_mean (map (\<lambda>x. \<bar>x - m\<bar>\<^sup>2) xs) = s\<^sup>2"
      using np_std_sq [of xs] by (simp only: m_def s_def)
    then show ?thesis using s by (metis divide_self power_not_zero less_irrefl)
  qed
  finally show ?thesis by (simp add: np_std_def)
qed

lemma standardize_idem_exact:
  assumes "0 < np_std xs"
  shows "standardize (standardize xs) = standardize xs"
proof -
  have ne: "xs \<noteq> []" using assms by (rule np_std_pos_nonempty)
  have "standardize (standardize xs) = map (\<lambda>y. (y - 0) / 1) (standardize xs)"
    unfolding standardize_def [of "standardize xs"]
    by (simp only: standardize_mean_exact [OF ne] standardize_std_exact [OF assms])
  then show ?thesis by simp
qed

lemma standardize_0_2: "standardize [0, 2] = [- 1, 1]"
  by (simp add: standardize_def np_mean_0_2 np_std_0_2)

end
